theory Spec2Isabelle
  imports Complex_Main
begin

section \<open>Python values used by the two entry points\<close>

text \<open>
  An exception raised by a call. \<open>AttributeError\<close> stands for whatever a \<open>.pop\<close> on a
  value that is not a dict raises; \<open>HostAPIError\<close> is any exception coming out of the
  host framework.
\<close>

datatype exn = AttributeError | HostAPIError string

datatype 'a outcome = Returned 'a | Raised exn

text \<open>\<open>str.startswith\<close> and \<open>str.endswith\<close>.\<close>

definition startswith :: "string \<Rightarrow> string \<Rightarrow> bool" where
  "startswith s p = (take (length p) s = p)"

definition endswith :: "string \<Rightarrow> string \<Rightarrow> bool" where
  "endswith s p = (length p \<le> length s \<and> drop (length s - length p) s = p)"

text \<open>
  \<open>int(x)\<close> on a float truncates towards zero. The clock reading \<open>time.time()\<close> is a
  finite float, hence a real number.
\<close>

definition int_of_float :: "real \<Rightarrow> int" where
  "int_of_float x = (if 0 \<le> x then \<lfloor>x\<rfloor> else \<lceil>x\<rceil>)"

text \<open>\<open>str(n)\<close> for an integer, as the f-string formats it: decimal, \<open>-\<close> when negative.\<close>

definition digit_char :: "nat \<Rightarrow> char" where
  "digit_char d = ''0123456789'' ! d"

fun str_nat :: "nat \<Rightarrow> string" where
  "str_nat n = (if n < 10 then [digit_char n] else str_nat (n div 10) @ [digit_char (n mod 10)])"

declare str_nat.simps [simp del]

definition str_int :: "int \<Rightarrow> string" where
  "str_int i = (if i < 0 then CHR ''-'' # str_nat (nat (- i)) else str_nat (nat i))"

text \<open>Reading a decimal numeral back, to say what a well-formed token denotes.\<close>

definition digit_val :: "char \<Rightarrow> nat" where
  "digit_val c = of_char c - 48"

definition is_digit :: "char \<Rightarrow> bool" where
  "is_digit c = (c \<in> set ''0123456789'')"

definition nat_of_digits :: "string \<Rightarrow> nat" where
  "nat_of_digits s = foldl (\<lambda>acc c. 10 * acc + digit_val c) 0 s"

text \<open>
  The parts of a URL reference the spec speaks of: the path component ends at the first
  \<open>?\<close> or \<open>#\<close>; the query, when the path is followed by \<open>?\<close>, runs from there up to a
  \<open>#\<close> or the end.
\<close>

definition in_path :: "char \<Rightarrow> bool" where
  "in_path ch = (ch \<noteq> CHR ''?'' \<and> ch \<noteq> CHR ''#'')"

definition url_path_component :: "string \<Rightarrow> string" where
  "url_path_component u = takeWhile in_path u"

definition url_query :: "string \<Rightarrow> string option" where
  "url_query u =
     (case dropWhile in_path u of
        [] \<Rightarrow> None
      | ch # rest \<Rightarrow>
          (if ch = CHR ''?'' then Some (takeWhile (\<lambda>x. x \<noteq> CHR ''#'') rest) else None))"

section \<open>The host framework as seen from the integration\<close>

text \<open>\<open>StaticPathConfig(url_path, path, cache_headers)\<close>.\<close>

record static_path_config =
  url_path :: string
  path :: string
  cache_headers :: bool

text \<open>
  Keyword arguments of the two panel-creation calls. The arguments they share are the
  base record; \<open>config\<close> is a dict of strings, kept as an association list.
\<close>

record panel_args =
  frontend_url_path :: string
  sidebar_title :: string
  sidebar_icon :: string
  require_admin :: bool
  config :: "(string \<times> string) list"

record panel_custom_args = panel_args +
  webcomponent_name :: string
  module_url :: string
  config_panel_domain :: string

record built_in_panel_args = panel_args +
  component_name :: string

text \<open>
  What \<open>hass.data.get("frontend_panels", {})\<close> finds: no such key, a dict from url path to
  the host's panel record, or some other object (on which \<open>.pop\<close> raises).
\<close>

datatype 'p panels_slot = Missing | Panels "string \<rightharpoonup> 'p" | NotADict

fun panel_at :: "'p panels_slot \<Rightarrow> string \<Rightarrow> 'p option" where
  "panel_at Missing d = None"
| "panel_at (Panels m) d = m d"
| "panel_at NotADict d = None"

record 'p hass =
  frontend_panels :: "'p panels_slot"
  static_paths :: "static_path_config list"

text \<open>
  The host plugin API is an external collaborator: every operation is a parameter that
  takes the host state and returns or raises, leaving the host state it produced.
\<close>

record 'p host =
  http_async_register_static_paths ::
    "static_path_config list \<Rightarrow> 'p hass \<Rightarrow> unit outcome \<times> 'p hass"
  http_register_static_path ::
    "static_path_config \<Rightarrow> 'p hass \<Rightarrow> unit outcome \<times> 'p hass"
  panel_custom_async_register_panel ::
    "panel_custom_args \<Rightarrow> 'p hass \<Rightarrow> unit outcome \<times> 'p hass"
  frontend_async_register_built_in_panel ::
    "built_in_panel_args \<Rightarrow> 'p hass \<Rightarrow> unit outcome \<times> 'p hass"
  frontend_async_remove_panel ::
    "string \<Rightarrow> 'p hass \<Rightarrow> unit outcome \<times> 'p hass"

text \<open>Every call into the host is recorded, in program order, with its arguments.\<close>

datatype host_call =
    Register_static_paths "static_path_config list"
  | Register_static_path static_path_config
  | Custom_register_panel panel_custom_args
  | Register_built_in_panel built_in_panel_args
  | Remove_panel string

record 'p world =
  hass_of :: "'p hass"
  calls :: "host_call list"

definition invoke ::
  "host_call \<Rightarrow> ('p hass \<Rightarrow> unit outcome \<times> 'p hass) \<Rightarrow> 'p world \<Rightarrow> unit outcome \<times> 'p world" where
  "invoke c f w =
     (case f (hass_of w) of (r, h) \<Rightarrow> (r, \<lparr>hass_of = h, calls = calls w @ [c]\<rparr>))"

section \<open>custom\_components/cafe/panel.py\<close>

text \<open>
  \<open>DOMAIN\<close>, \<open>PANEL_TITLE\<close> and \<open>PANEL_ICON\<close> are imported from the module \<open>const\<close>; they are
  parameters here.
\<close>

record const =
  DOMAIN :: string
  PANEL_TITLE :: string
  PANEL_ICON :: string

definition PANEL_URL :: "const \<Rightarrow> string" where
  "PANEL_URL c = ''/api/'' @ DOMAIN c @ ''_panel''"

definition PANEL_NAME :: "const \<Rightarrow> string" where
  "PANEL_NAME c = DOMAIN c @ ''-panel''"

text \<open>
  What the function reads from its surroundings: the directory of the module file, the
  names that scanning \<open>www/assets\<close> yields, in enumeration order (none when the directory
  is missing), and the clock reading \<open>time.time()\<close>.
\<close>

record env =
  component_dir :: string
  assets_entries :: "string list"
  clock :: real

definition www_path :: "env \<Rightarrow> string" where
  "www_path e = component_dir e @ ''/www''"

text \<open>The glob pattern \<open>index-*.js\<close> on one file name: \<open>*\<close> matches any run of characters.\<close>

definition glob_index_js :: "string \<Rightarrow> bool" where
  "glob_index_js name =
     (length ''index-'' + length ''.js'' \<le> length name
      \<and> startswith name ''index-'' \<and> endswith name ''.js'')"

definition js_files :: "env \<Rightarrow> string list" where
  "js_files e = filter (\<lambda>f. \<not> endswith f ''.map'') (filter glob_index_js (assets_entries e))"

definition cache_bust :: "env \<Rightarrow> int" where
  "cache_bust e = int_of_float (clock e)"

definition module_url_of :: "string \<Rightarrow> int \<Rightarrow> string" where
  "module_url_of js_filename cb = ''/cafe_static/assets/'' @ js_filename @ ''?v='' @ str_int cb"

definition cafe_static :: "env \<Rightarrow> static_path_config" where
  "cafe_static e = \<lparr>url_path = ''/cafe_static'', path = www_path e, cache_headers = False\<rparr>"

definition custom_panel_args :: "const \<Rightarrow> string \<Rightarrow> panel_custom_args" where
  "custom_panel_args c url =
     \<lparr>frontend_url_path = DOMAIN c,
      sidebar_title = PANEL_TITLE c,
      sidebar_icon = PANEL_ICON c,
      require_admin = True,
      config = [],
      webcomponent_name = PANEL_NAME c,
      module_url = url,
      config_panel_domain = DOMAIN c\<rparr>"

text \<open>\<open>hass.data.get("frontend_panels", {}).pop(DOMAIN, None)\<close>.\<close>

fun pop_panel :: "string \<Rightarrow> 'p hass \<Rightarrow> unit outcome \<times> 'p hass" where
  "pop_panel d h =
     (case frontend_panels h of
        Missing \<Rightarrow> (Returned (), h)
      | Panels m \<Rightarrow> (Returned (), h\<lparr>frontend_panels := Panels (m(d := None))\<rparr>)
      | NotADict \<Rightarrow> (Raised AttributeError, h))"

text \<open>The \<open>try: ... except: pass\<close> around it: whatever it raises is dropped.\<close>

definition try_pop_panel :: "string \<Rightarrow> 'p world \<Rightarrow> 'p world" where
  "try_pop_panel d w =
     (case pop_panel d (hass_of w) of
        (Returned u, h) \<Rightarrow> w\<lparr>hass_of := h\<rparr>
      | (Raised x, h) \<Rightarrow> w\<lparr>hass_of := h\<rparr>)"

definition async_register_panel ::
  "'p host \<Rightarrow> const \<Rightarrow> env \<Rightarrow> 'p world \<Rightarrow> unit outcome \<times> 'p world" where
  "async_register_panel H c e w =
     (case invoke (Register_static_paths [cafe_static e])
             (http_async_register_static_paths H [cafe_static e]) w of
        (Raised x, w1) \<Rightarrow> (Raised x, w1)
      | (Returned u, w1) \<Rightarrow>
          (case js_files e of
             [] \<Rightarrow> (Returned (), w1)
           | f # fs \<Rightarrow>
               (let js_filename = f;
                    url = module_url_of js_filename (cache_bust e);
                    w2 = try_pop_panel (DOMAIN c) w1
                in invoke (Custom_register_panel (custom_panel_args c url))
                     (panel_custom_async_register_panel H (custom_panel_args c url)) w2)))"

definition async_unregister_panel :: "'p host \<Rightarrow> const \<Rightarrow> 'p world \<Rightarrow> unit outcome \<times> 'p world" where
  "async_unregister_panel H c w =
     invoke (Remove_panel (DOMAIN c)) (frontend_async_remove_panel H (DOMAIN c)) w"

section \<open>custom\_components/flow\_automator/\_\_init\_\_.py\<close>

definition fa_DOMAIN :: string where
  "fa_DOMAIN = ''flow_automator''"

definition fa_PANEL_URL :: string where
  "fa_PANEL_URL = ''/flow_automator_panel''"

definition fa_PANEL_TITLE :: string where
  "fa_PANEL_TITLE = ''C.A.F.E.''"

definition fa_PANEL_ICON :: string where
  "fa_PANEL_ICON = ''mdi:graph''"

definition flow_automator_static :: "env \<Rightarrow> static_path_config" where
  "flow_automator_static e =
     \<lparr>url_path = ''/flow_automator_static'', path = www_path e, cache_headers = False\<rparr>"

definition iframe_panel_args :: built_in_panel_args where
  "iframe_panel_args =
     \<lparr>frontend_url_path = ''flow-automator'',
      sidebar_title = fa_PANEL_TITLE,
      sidebar_icon = fa_PANEL_ICON,
      require_admin = True,
      config = [(''url'', ''/flow_automator_static/index.html'')],
      component_name = ''iframe''\<rparr>"

definition async_setup :: "'p host \<Rightarrow> env \<Rightarrow> 'p world \<Rightarrow> bool outcome \<times> 'p world" where
  "async_setup H e w =
     (case invoke (Register_static_path (flow_automator_static e))
             (http_register_static_path H (flow_automator_static e)) w of
        (Raised x, w1) \<Rightarrow> (Raised x, w1)
      | (Returned u, w1) \<Rightarrow>
          (case invoke (Register_built_in_panel iframe_panel_args)
                  (frontend_async_register_built_in_panel H iframe_panel_args) w1 of
             (Raised x, w2) \<Rightarrow> (Raised x, w2)
           | (Returned u, w2) \<Rightarrow> (Returned True, w2)))"

definition async_setup_entry :: "'p world \<Rightarrow> 'entry \<Rightarrow> bool outcome \<times> 'p world" where
  "async_setup_entry w entry = (Returned True, w)"

definition async_unload_entry :: "'p world \<Rightarrow> 'entry \<Rightarrow> bool outcome \<times> 'p world" where
  "async_unload_entry w entry = (Returned True, w)"

section \<open>A reference host and sample inputs\<close>

text \<open>
  Modelled from the spec: the host's panel registry behind \<open>register_panel\<close>, which is not
  part of the repository. The registry holds at most one record per url path; a request
  for a path that already has a record is refused rather than overwritten, and a slot
  that holds no dict is replaced by a fresh one.
\<close>

datatype panel = Custom_panel panel_custom_args | Built_in_panel built_in_panel_args

definition spec_register_panel :: "string \<Rightarrow> panel \<Rightarrow> panel hass \<Rightarrow> unit outcome \<times> panel hass" where
  "spec_register_panel url p h =
     (case panel_at (frontend_panels h) url of
        Some q \<Rightarrow> (Raised (HostAPIError ''Overwriting panel''), h)
      | None \<Rightarrow>
          (Returned (),
           h\<lparr>frontend_panels :=
               Panels ((case frontend_panels h of Panels m \<Rightarrow> m | _ \<Rightarrow> Map.empty)(url \<mapsto> p))\<rparr>))"

text \<open>
  Modelled from the spec: \<open>remove_panel(domain)\<close> of the host, which is not part of the
  repository. It removes the record for the domain; removing a panel that does not exist
  is not an error.
\<close>

definition spec_remove_panel :: "string \<Rightarrow> panel hass \<Rightarrow> unit outcome \<times> panel hass" where
  "spec_remove_panel d h =
     (case frontend_panels h of
        Panels m \<Rightarrow> (Returned (), h\<lparr>frontend_panels := Panels (m(d := None))\<rparr>)
      | _ \<Rightarrow> (Returned (), h))"

text \<open>
  Modelled from the spec: \<open>register_static_path\<close> of the host, which is not part of the
  repository. Registering a path again is a no-op.
\<close>

definition spec_register_static_paths ::
  "static_path_config list \<Rightarrow> panel hass \<Rightarrow> unit outcome \<times> panel hass" where
  "spec_register_static_paths cfgs h =
     (Returned (),
      h\<lparr>static_paths := static_paths h @ filter (\<lambda>c. c \<notin> set (static_paths h)) cfgs\<rparr>)"

definition spec_host :: "panel host" where
  "spec_host =
     \<lparr>http_async_register_static_paths = spec_register_static_paths,
      http_register_static_path = (\<lambda>cfg. spec_register_static_paths [cfg]),
      panel_custom_async_register_panel =
        (\<lambda>a. spec_register_panel (frontend_url_path a) (Custom_panel a)),
      frontend_async_register_built_in_panel =
        (\<lambda>a. spec_register_panel (frontend_url_path a) (Built_in_panel a)),
      frontend_async_remove_panel = spec_remove_panel\<rparr>"

text \<open>
  Sample inputs: a built bundle, a bundle without its main script, a bundle whose main
  script has a \<open>?\<close> in its name, a fresh host, a host whose registry slot holds no dict.
\<close>

definition cafe_const :: const where
  "cafe_const = \<lparr>DOMAIN = ''cafe'', PANEL_TITLE = ''C.A.F.E.'', PANEL_ICON = ''mdi:coffee''\<rparr>"

definition built_env :: env where
  "built_env =
     \<lparr>component_dir = ''/config/custom_components/cafe'',
      assets_entries = [''index-Bx3kQ9.css'', ''index-Bx3kQ9.js.map'', ''index-Bx3kQ9.js''],
      clock = 3401 / 2\<rparr>"

definition unbuilt_env :: env where
  "unbuilt_env =
     \<lparr>component_dir = ''/config/custom_components/cafe'',
      assets_entries = [''index-Bx3kQ9.css'', ''index.js'', ''vendor-77aa.js''],
      clock = 3401 / 2\<rparr>"

definition odd_env :: env where
  "odd_env =
     \<lparr>component_dir = ''/config/custom_components/cafe'',
      assets_entries = [''index-a?b.js''],
      clock = 3401 / 2\<rparr>"

definition fresh_world :: "panel world" where
  "fresh_world = \<lparr>hass_of = \<lparr>frontend_panels = Missing, static_paths = []\<rparr>, calls = []\<rparr>"

definition broken_world :: "panel world" where
  "broken_world = \<lparr>hass_of = \<lparr>frontend_panels = NotADict, static_paths = []\<rparr>, calls = []\<rparr>"

section \<open>Auxiliary facts\<close>

lemma fst_invoke: "fst (invoke c f w) = fst (f (hass_of w))"
  by (simp add: invoke_def split: prod.split)

lemma calls_invoke: "calls (snd (invoke c f w)) = calls w @ [c]"
  by (simp add: invoke_def split: prod.split)

lemma hass_invoke: "hass_of (snd (invoke c f w)) = snd (f (hass_of w))"
  by (simp add: invoke_def split: prod.split)

lemma invoke_eq:
  "invoke c f w =
     (fst (f (hass_of w)), \<lparr>hass_of = snd (f (hass_of w)), calls = calls w @ [c]\<rparr>)"
  by (simp add: invoke_def split: prod.split)

lemma calls_try_pop: "calls (try_pop_panel d w) = calls w"
  by (simp add: try_pop_panel_def split: panels_slot.split)

lemma hass_try_pop: "hass_of (try_pop_panel d w) = snd (pop_panel d (hass_of w))"
  by (simp add: try_pop_panel_def split: panels_slot.split)

lemma panel_at_after_pop: "panel_at (frontend_panels (snd (pop_panel d h))) d = None"
  by (simp split: panels_slot.split)

lemma digit_val_char: "d < 10 \<Longrightarrow> digit_val (digit_char d) = d"
proof -
  assume "d < 10"
  then have "d \<in> {0, 1, 2, 3, 4, 5, 6, 7, 8, 9}" by auto
  then show ?thesis by (auto simp: digit_val_def digit_char_def)
qed

lemma is_digit_char: "d < 10 \<Longrightarrow> is_digit (digit_char d)"
proof -
  assume "d < 10"
  then have "d \<in> {0, 1, 2, 3, 4, 5, 6, 7, 8, 9}" by auto
  then show ?thesis by (auto simp: is_digit_def digit_char_def)
qed

lemma str_nat_nonempty: "str_nat n \<noteq> []"
  by (subst str_nat.simps) simp

lemma str_nat_digits: "ch \<in> set (str_nat n) \<Longrightarrow> is_digit ch"
proof (induction n arbitrary: ch rule: str_nat.induct)
  case (1 n)
  show ?case
  proof (cases "n < 10")
    case True
    with "1.prems" show ?thesis
      by (subst (asm) str_nat.simps) (simp add: is_digit_char)
  next
    case False
    with 1 show ?thesis
      by (subst (asm) str_nat.simps) (auto simp: is_digit_char)
  qed
qed

lemma nat_of_digits_snoc: "nat_of_digits (s @ [ch]) = 10 * nat_of_digits s + digit_val ch"
  by (simp add: nat_of_digits_def)

lemma nat_of_digits_str_nat: "nat_of_digits (str_nat n) = n"
proof (induction n rule: str_nat.induct)
  case (1 n)
  show ?case
  proof (cases "n < 10")
    case True
    then show ?thesis
      by (subst str_nat.simps) (simp add: nat_of_digits_def digit_val_char)
  next
    case False
    with 1 show ?thesis
      by (subst str_nat.simps) (simp add: nat_of_digits_snoc digit_val_char)
  qed
qed

lemma int_of_float_nonneg: "0 \<le> x \<Longrightarrow> 0 \<le> int_of_float x"
  by (simp add: int_of_float_def)

lemma int_of_float_mono: "x \<le> y \<Longrightarrow> int_of_float x \<le> int_of_float y"
proof -
  assume xy: "x \<le> y"
  consider "0 \<le> x" | "x < 0" "0 \<le> y" | "x < 0" "y < 0" by linarith
  then show ?thesis
  proof cases
    case 1
    with xy show ?thesis by (simp add: int_of_float_def floor_mono)
  next
    case 2
    then have "\<lceil>x\<rceil> \<le> 0" and "0 \<le> \<lfloor>y\<rfloor>" by (simp_all add: ceiling_le_iff)
    then have "\<lceil>x\<rceil> \<le> \<lfloor>y\<rfloor>" by linarith
    with 2 show ?thesis by (simp add: int_of_float_def)
  next
    case 3
    with xy show ?thesis by (simp add: int_of_float_def ceiling_mono)
  qed
qed

lemma int_of_float_step: "0 \<le> x \<Longrightarrow> x + 1 \<le> y \<Longrightarrow> int_of_float x < int_of_float y"
  unfolding int_of_float_def by (auto; linarith)

lemma js_files_built: "js_files built_env = [''index-Bx3kQ9.js'']"
  by (simp add: js_files_def built_env_def glob_index_js_def startswith_def endswith_def)

lemma js_files_unbuilt: "js_files unbuilt_env = []"
  by (simp add: js_files_def unbuilt_env_def glob_index_js_def startswith_def endswith_def)

lemma spec_static_returns: "fst (http_async_register_static_paths spec_host cfgs h) = Returned ()"
  by (simp add: spec_host_def spec_register_static_paths_def)

lemma spec_static_keeps_panels:
  "frontend_panels (snd (http_async_register_static_paths spec_host cfgs h)) = frontend_panels h"
  by (simp add: spec_host_def spec_register_static_paths_def)

lemma spec_custom_creates:
  "panel_at (frontend_panels h) (frontend_url_path a) = None \<Longrightarrow>
     fst (panel_custom_async_register_panel spec_host a h) = Returned ()
     \<and> panel_at (frontend_panels (snd (panel_custom_async_register_panel spec_host a h)))
          (frontend_url_path a) = Some (Custom_panel a)"
  by (simp add: spec_host_def spec_register_panel_def)

lemma register_abort:
  assumes "js_files e = []"
  shows "async_register_panel H c e w
         = (fst (http_async_register_static_paths H [cafe_static e] (hass_of w)),
            \<lparr>hass_of = snd (http_async_register_static_paths H [cafe_static e] (hass_of w)),
             calls = calls w @ [Register_static_paths [cafe_static e]]\<rparr>)"
  using assms
  by (cases "fst (http_async_register_static_paths H [cafe_static e] (hass_of w))")
     (simp_all add: async_register_panel_def invoke_eq)

lemma register_proceed:
  assumes "js_files e = f # fs"
      and "fst (http_async_register_static_paths H [cafe_static e] (hass_of w)) = Returned ()"
  shows "async_register_panel H c e w
         = invoke (Custom_register_panel (custom_panel_args c (module_url_of f (cache_bust e))))
             (panel_custom_async_register_panel H (custom_panel_args c (module_url_of f (cache_bust e))))
             \<lparr>hass_of = snd (pop_panel (DOMAIN c)
                          (snd (http_async_register_static_paths H [cafe_static e] (hass_of w)))),
              calls = calls w @ [Register_static_paths [cafe_static e]]\<rparr>"
proof -
  let ?w1 = "\<lparr>hass_of = snd (http_async_register_static_paths H [cafe_static e] (hass_of w)),
              calls = calls w @ [Register_static_paths [cafe_static e]]\<rparr>"
  have "try_pop_panel (DOMAIN c) ?w1
        = \<lparr>hass_of = snd (pop_panel (DOMAIN c) (hass_of ?w1)), calls = calls ?w1\<rparr>"
    by (simp add: try_pop_panel_def split: panels_slot.split)
  then show ?thesis
    using assms by (simp add: async_register_panel_def invoke_eq Let_def)
qed

lemma register_raise:
  assumes "fst (http_async_register_static_paths H [cafe_static e] (hass_of w)) = Raised x"
  shows "async_register_panel H c e w
         = (Raised x,
            \<lparr>hass_of = snd (http_async_register_static_paths H [cafe_static e] (hass_of w)),
             calls = calls w @ [Register_static_paths [cafe_static e]]\<rparr>)"
  using assms by (simp add: async_register_panel_def invoke_eq)

lemma custom_args_url_path: "frontend_url_path (custom_panel_args c u) = DOMAIN c"
  by (simp add: custom_panel_args_def)

lemma spec_create_after_pop:
  "fst (panel_custom_async_register_panel spec_host (custom_panel_args c u)
          (snd (pop_panel (DOMAIN c) h))) = Returned ()"
proof -
  have "panel_at (frontend_panels (snd (pop_panel (DOMAIN c) h)))
          (frontend_url_path (custom_panel_args c u)) = None"
    by (simp only: custom_args_url_path panel_at_after_pop)
  then show ?thesis by (rule spec_custom_creates [THEN conjunct1])
qed

lemma spec_static1_returns: "fst (http_register_static_path spec_host cfg h) = Returned ()"
  by (simp add: spec_host_def spec_register_static_paths_def)

lemma spec_static_contract:
  "fst (http_async_register_static_paths spec_host cfgs h) = Returned ()
   \<and> frontend_panels (snd (http_async_register_static_paths spec_host cfgs h)) = frontend_panels h"
  by (simp add: spec_static_returns spec_static_keeps_panels)

lemma spec_create_contract:
  "panel_at (frontend_panels h) (frontend_url_path a) = None \<Longrightarrow>
     fst (panel_custom_async_register_panel spec_host a h) = Returned ()
     \<and> panel_at (frontend_panels (snd (panel_custom_async_register_panel spec_host a h)))
          (frontend_url_path a) \<noteq> None"
  by (simp add: spec_custom_creates)

lemma url_path_component_split:
  "\<forall>ch \<in> set p. in_path ch \<Longrightarrow> url_path_component (p @ CHR ''?'' # q) = p"
  by (simp add: url_path_component_def takeWhile_append2 in_path_def)

lemma url_query_split:
  "\<forall>ch \<in> set p. in_path ch \<Longrightarrow> CHR ''#'' \<notin> set q \<Longrightarrow> url_query (p @ CHR ''?'' # q) = Some q"
proof -
  assume plain: "\<forall>ch \<in> set p. in_path ch" and nohash: "CHR ''#'' \<notin> set q"
  have rest: "dropWhile in_path (p @ CHR ''?'' # q) = CHR ''?'' # q"
    using plain by (simp add: dropWhile_append2 in_path_def)
  have "takeWhile (\<lambda>x. x \<noteq> CHR ''#'') q = q"
    using nohash by (induction q) auto
  then show ?thesis by (simp add: url_query_def rest)
qed

lemma str_int_no_hash: "CHR ''#'' \<notin> set (str_int i)"
proof
  assume "CHR ''#'' \<in> set (str_int i)"
  then have "CHR ''#'' \<in> set (str_nat (nat (- i))) \<or> CHR ''#'' \<in> set (str_nat (nat i))"
    by (auto simp: str_int_def split: if_splits)
  then have "is_digit CHR ''#''" by (auto dest: str_nat_digits)
  then show False by (simp add: is_digit_def)
qed

lemma module_url_parts:
  assumes "CHR ''?'' \<notin> set f" and "CHR ''#'' \<notin> set f"
  shows "url_path_component (module_url_of f cb) = ''/cafe_static/assets/'' @ f
       \<and> url_query (module_url_of f cb) = Some (''v='' @ str_int cb)"
proof -
  have plain: "\<forall>ch \<in> set (''/cafe_static/assets/'' @ f). in_path ch"
    using assms by (auto simp: in_path_def)
  have split: "module_url_of f cb = (''/cafe_static/assets/'' @ f) @ CHR ''?'' # (''v='' @ str_int cb)"
    by (simp add: module_url_of_def)
  have nohash: "CHR ''#'' \<notin> set (''v='' @ str_int cb)"
    using str_int_no_hash by simp
  show ?thesis
    by (simp only: split url_path_component_split [OF plain] url_query_split [OF plain nohash])
qed

lemma js_files_odd: "js_files odd_env = [''index-a?b.js'']"
  by (simp add: js_files_def odd_env_def glob_index_js_def startswith_def endswith_def)

lemma cache_bust_built: "cache_bust built_env = 1700"
  by (simp add: built_env_def cache_bust_def int_of_float_def)

lemma cache_bust_odd: "cache_bust odd_env = 1700"
  by (simp add: odd_env_def cache_bust_def int_of_float_def)

lemma str_int_1700: "str_int 1700 = ''1700''"
  by (simp add: str_int_def str_nat.simps digit_char_def)

lemma register_calls:
  assumes "js_files e = f # fs"
      and "fst (http_async_register_static_paths H [cafe_static e] (hass_of w)) = Returned ()"
  shows "calls (snd (async_register_panel H c e w))
         = calls w @ [Register_static_paths [cafe_static e],
                      Custom_register_panel (custom_panel_args c (module_url_of f (cache_bust e)))]"
  by (simp add: register_proceed [OF assms] calls_invoke)

lemma module_url_custom_args: "module_url (custom_panel_args c u) = u"
  by (simp add: custom_panel_args_def)

lemma token_digits:
  assumes "0 \<le> clock e"
  shows "0 \<le> cache_bust e
       \<and> str_int (cache_bust e) \<noteq> []
       \<and> (\<forall>ch \<in> set (str_int (cache_bust e)). is_digit ch)
       \<and> int (nat_of_digits (str_int (cache_bust e))) = cache_bust e"
proof -
  have nn: "0 \<le> cache_bust e"
    using assms by (simp add: cache_bust_def int_of_float_nonneg)
  then have s: "str_int (cache_bust e) = str_nat (nat (cache_bust e))"
    by (simp add: str_int_def)
  from nn show ?thesis
    by (simp add: s str_nat_nonempty str_nat_digits nat_of_digits_str_nat)
qed

lemma js_files_later: "js_files (built_env\<lparr>clock := 5403 / 2\<rparr>) = [''index-Bx3kQ9.js'']"
  using js_files_built by (simp add: js_files_def)

lemma cache_bust_later: "cache_bust (built_env\<lparr>clock := 5403 / 2\<rparr>) = 2701"
  by (simp add: cache_bust_def int_of_float_def)

lemma str_int_2701: "str_int 2701 = ''2701''"
  by (simp add: str_int_def str_nat.simps digit_char_def)

section \<open>The cache-busting token\<close>

text \<open>
  C8. Take two runs of \<open>async_register_panel\<close> that find a main script and whose
  static-path call returns, the first with a clock reading at or after the epoch, the
  second with a reading at least one second later. The last call each issues is the panel
  creation, and its module URL ends with \<open>?v=\<close> and the token \<open>int(time.time())\<close> of that
  run written in decimal (for a file name without \<open>?\<close> and \<open>#\<close>, \<open>v=token\<close> is the whole
  query). Each token is a non-negative integer, its text is a non-empty run of digits
  that reads back as the token, the later token is strictly greater and the two texts
  differ. For any two clock readings the token is monotone in the reading.
\<close>

theorem cache_bust_token:
  assumes js1: "js_files e1 = f1 # fs1" and js2: "js_files e2 = f2 # fs2"
      and st1: "fst (http_async_register_static_paths H [cafe_static e1] (hass_of w1)) = Returned ()"
      and st2: "fst (http_async_register_static_paths H [cafe_static e2] (hass_of w2)) = Returned ()"
      and epoch: "0 \<le> clock e1" and apart: "clock e1 + 1 \<le> clock e2"
  shows "(\<exists>a1 a2.
           last (calls (snd (async_register_panel H c e1 w1))) = Custom_register_panel a1
         \<and> last (calls (snd (async_register_panel H c e2 w2))) = Custom_register_panel a2
         \<and> module_url a1 = ''/cafe_static/assets/'' @ f1 @ ''?v='' @ str_int (cache_bust e1)
         \<and> module_url a2 = ''/cafe_static/assets/'' @ f2 @ ''?v='' @ str_int (cache_bust e2)
         \<and> (CHR ''?'' \<notin> set f1 \<and> CHR ''#'' \<notin> set f1 \<longrightarrow>
               url_query (module_url a1) = Some (''v='' @ str_int (cache_bust e1)))
         \<and> (CHR ''?'' \<notin> set f2 \<and> CHR ''#'' \<notin> set f2 \<longrightarrow>
               url_query (module_url a2) = Some (''v='' @ str_int (cache_bust e2))))
       \<and> cache_bust e1 = int_of_float (clock e1) \<and> cache_bust e2 = int_of_float (clock e2)
       \<and> 0 \<le> cache_bust e1 \<and> cache_bust e1 < cache_bust e2
       \<and> str_int (cache_bust e1) \<noteq> [] \<and> (\<forall>ch \<in> set (str_int (cache_bust e1)). is_digit ch)
       \<and> str_int (cache_bust e2) \<noteq> [] \<and> (\<forall>ch \<in> set (str_int (cache_bust e2)). is_digit ch)
       \<and> int (nat_of_digits (str_int (cache_bust e1))) = cache_bust e1
       \<and> int (nat_of_digits (str_int (cache_bust e2))) = cache_bust e2
       \<and> str_int (cache_bust e1) \<noteq> str_int (cache_bust e2)
       \<and> (\<forall>e e'. clock e \<le> clock e' \<longrightarrow> cache_bust e \<le> cache_bust e')"
proof -
  let ?t1 = "str_int (cache_bust e1)" and ?t2 = "str_int (cache_bust e2)"
  let ?a1 = "custom_panel_args c (module_url_of f1 (cache_bust e1))"
  let ?a2 = "custom_panel_args c (module_url_of f2 (cache_bust e2))"
  have epoch2: "0 \<le> clock e2" using epoch apart by simp
  note d1 = token_digits [OF epoch] and d2 = token_digits [OF epoch2]
  have lt: "cache_bust e1 < cache_bust e2"
    using epoch apart by (simp add: cache_bust_def int_of_float_step)
  have differ: "?t1 \<noteq> ?t2"
  proof
    assume "?t1 = ?t2"
    then have "int (nat_of_digits ?t1) = int (nat_of_digits ?t2)" by simp
    with d1 d2 lt show False by simp
  qed
  have mono: "\<forall>e e'. clock e \<le> clock e' \<longrightarrow> cache_bust e \<le> cache_bust e'"
    by (simp add: cache_bust_def int_of_float_mono)
  have last1: "last (calls (snd (async_register_panel H c e1 w1))) = Custom_register_panel ?a1"
    by (simp add: register_calls [OF js1 st1])
  have last2: "last (calls (snd (async_register_panel H c e2 w2))) = Custom_register_panel ?a2"
    by (simp add: register_calls [OF js2 st2])
  have url1: "module_url ?a1 = ''/cafe_static/assets/'' @ f1 @ ''?v='' @ ?t1"
    by (simp add: module_url_custom_args module_url_of_def)
  have url2: "module_url ?a2 = ''/cafe_static/assets/'' @ f2 @ ''?v='' @ ?t2"
    by (simp add: module_url_custom_args module_url_of_def)
  have q1: "CHR ''?'' \<notin> set f1 \<and> CHR ''#'' \<notin> set f1 \<longrightarrow> url_query (module_url ?a1) = Some (''v='' @ ?t1)"
    by (simp only: module_url_custom_args) (blast dest: module_url_parts)
  have q2: "CHR ''?'' \<notin> set f2 \<and> CHR ''#'' \<notin> set f2 \<longrightarrow> url_query (module_url ?a2) = Some (''v='' @ ?t2)"
    by (simp only: module_url_custom_args) (blast dest: module_url_parts)
  from last1 last2 url1 url2 q1 q2
  have issued: "\<exists>a1 a2.
           last (calls (snd (async_register_panel H c e1 w1))) = Custom_register_panel a1
         \<and> last (calls (snd (async_register_panel H c e2 w2))) = Custom_register_panel a2
         \<and> module_url a1 = ''/cafe_static/assets/'' @ f1 @ ''?v='' @ ?t1
         \<and> module_url a2 = ''/cafe_static/assets/'' @ f2 @ ''?v='' @ ?t2
         \<and> (CHR ''?'' \<notin> set f1 \<and> CHR ''#'' \<notin> set f1 \<longrightarrow> url_query (module_url a1) = Some (''v='' @ ?t1))
         \<and> (CHR ''?'' \<notin> set f2 \<and> CHR ''#'' \<notin> set f2 \<longrightarrow> url_query (module_url a2) = Some (''v='' @ ?t2))"
    by blast
  have defs: "cache_bust e1 = int_of_float (clock e1) \<and> cache_bust e2 = int_of_float (clock e2)"
    by (simp add: cache_bust_def)
  from issued defs d1 d2 lt differ mono show ?thesis by blast
qed

theorem cache_bust_token_witness:
  "js_files built_env = [''index-Bx3kQ9.js'']
   \<and> (0::real) \<le> clock built_env
   \<and> clock built_env + 1 \<le> clock (built_env\<lparr>clock := 5403 / 2\<rparr>)
   \<and> (\<exists>a1 a2.
         last (calls (snd (async_register_panel spec_host cafe_const built_env fresh_world)))
           = Custom_register_panel a1
       \<and> last (calls (snd (async_register_panel spec_host cafe_const (built_env\<lparr>clock := 5403 / 2\<rparr>)
                             (snd (async_register_panel spec_host cafe_const built_env fresh_world)))))
           = Custom_register_panel a2
       \<and> module_url a1 = ''/cafe_static/assets/index-Bx3kQ9.js?v=1700''
       \<and> module_url a2 = ''/cafe_static/assets/index-Bx3kQ9.js?v=2701''
       \<and> url_query (module_url a1) = Some ''v=1700''
       \<and> url_query (module_url a2) = Some ''v=2701'')
   \<and> cache_bust built_env = 1700
   \<and> cache_bust (built_env\<lparr>clock := 5403 / 2\<rparr>) = 2701"
proof -
  have clocks: "(0::real) \<le> clock built_env
                \<and> clock built_env + 1 \<le> clock (built_env\<lparr>clock := 5403 / 2\<rparr>)"
    by (simp add: built_env_def)
  show ?thesis
    using cache_bust_token [where H = spec_host and c = cafe_const and ?w1.0 = fresh_world
            and ?w2.0 = "snd (async_register_panel spec_host cafe_const built_env fresh_world)",
            OF js_files_built js_files_later spec_static_returns spec_static_returns
               clocks [THEN conjunct1] clocks [THEN conjunct2]]
    by (simp add: js_files_built cache_bust_built cache_bust_later str_int_1700 str_int_2701)
       (simp add: built_env_def)
qed

section \<open>Registering the custom panel\<close>

text \<open>
  C1, as stated, fails for a file name that contains \<open>?\<close>: the name goes into the URL as
  it is. With \<open>index-a?b.js\<close> as the only match the registration succeeds, but the path
  component of the module URL is \<open>/cafe_static/assets/index-a\<close> and the query is
  \<open>b.js?v=1700\<close>.
\<close>

theorem odd_file_name_path_component:
  "js_files odd_env = [''index-a?b.js'']
   \<and> fst (async_register_panel spec_host cafe_const odd_env fresh_world) = Returned ()
   \<and> calls (snd (async_register_panel spec_host cafe_const odd_env fresh_world))
       = [Register_static_paths [cafe_static odd_env],
          Custom_register_panel
            (custom_panel_args cafe_const ''/cafe_static/assets/index-a?b.js?v=1700'')]
   \<and> url_path_component
         (module_url (custom_panel_args cafe_const ''/cafe_static/assets/index-a?b.js?v=1700''))
       = ''/cafe_static/assets/index-a''
   \<and> url_path_component
         (module_url (custom_panel_args cafe_const ''/cafe_static/assets/index-a?b.js?v=1700''))
       \<noteq> ''/cafe_static/assets/'' @ ''index-a?b.js''
   \<and> url_query
         (module_url (custom_panel_args cafe_const ''/cafe_static/assets/index-a?b.js?v=1700''))
       = Some ''b.js?v=1700''"
proof -
  have ret: "fst (async_register_panel spec_host cafe_const odd_env fresh_world) = Returned ()"
    by (simp only: register_proceed [OF js_files_odd spec_static_returns] fst_invoke
          world.simps spec_create_after_pop)
  have log: "calls (snd (async_register_panel spec_host cafe_const odd_env fresh_world))
       = [Register_static_paths [cafe_static odd_env],
          Custom_register_panel
            (custom_panel_args cafe_const ''/cafe_static/assets/index-a?b.js?v=1700'')]"
    by (simp add: register_calls [OF js_files_odd spec_static_returns] cache_bust_odd
          module_url_of_def str_int_1700 fresh_world_def)
  have parts: "url_path_component ''/cafe_static/assets/index-a?b.js?v=1700'' = ''/cafe_static/assets/index-a''
             \<and> url_query ''/cafe_static/assets/index-a?b.js?v=1700'' = Some ''b.js?v=1700''"
    by (simp add: url_path_component_def url_query_def in_path_def)
  from ret log parts show ?thesis
    by (simp add: js_files_odd module_url_custom_args)
qed

text \<open>
  C1, amended. When exactly one entry of the assets directory matches \<open>index-*.js\<close> and is no
  \<open>.map\<close> file, and the host's calls return (panel creation at least when the url path has
  no record), \<open>async_register_panel\<close> returns; the calls it issues are the static-path
  registration and one panel creation, whose module URL is the text \<open>/cafe_static/assets/\<close>,
  the file name, \<open>?v=\<close> and the token. When the file name contains neither \<open>?\<close> nor \<open>#\<close>,
  the path component of that URL is \<open>/cafe_static/assets/\<close> followed by the file name, and
  its query is \<open>v=\<close> and the token, nothing else.
\<close>

theorem register_single_bundle:
  assumes one: "js_files e = [f]"
      and static_ok: "fst (http_async_register_static_paths H [cafe_static e] (hass_of w)) = Returned ()"
      and create_ok: "\<And>a h. panel_at (frontend_panels h) (frontend_url_path a) = None \<Longrightarrow>
                        fst (panel_custom_async_register_panel H a h) = Returned ()"
  shows "fst (async_register_panel H c e w) = Returned ()
       \<and> (\<exists>a. calls (snd (async_register_panel H c e w))
                 = calls w @ [Register_static_paths [cafe_static e], Custom_register_panel a]
              \<and> module_url a = ''/cafe_static/assets/'' @ f @ ''?v='' @ str_int (cache_bust e)
              \<and> (CHR ''?'' \<notin> set f \<and> CHR ''#'' \<notin> set f \<longrightarrow>
                    url_path_component (module_url a) = ''/cafe_static/assets/'' @ f
                    \<and> url_query (module_url a) = Some (''v='' @ str_int (cache_bust e))))"
proof -
  let ?a = "custom_panel_args c (module_url_of f (cache_bust e))"
  have absent: "panel_at (frontend_panels
                   (snd (pop_panel (DOMAIN c)
                          (snd (http_async_register_static_paths H [cafe_static e] (hass_of w))))))
                  (frontend_url_path ?a) = None"
    by (simp only: custom_args_url_path panel_at_after_pop)
  have ok: "fst (async_register_panel H c e w) = Returned ()"
    by (simp only: register_proceed [OF one static_ok] fst_invoke world.simps create_ok [OF absent])
  have log: "calls (snd (async_register_panel H c e w))
             = calls w @ [Register_static_paths [cafe_static e], Custom_register_panel ?a]"
    by (rule register_calls [OF one static_ok])
  have url: "module_url ?a = ''/cafe_static/assets/'' @ f @ ''?v='' @ str_int (cache_bust e)"
    by (simp add: module_url_custom_args module_url_of_def)
  have parts: "CHR ''?'' \<notin> set f \<and> CHR ''#'' \<notin> set f \<longrightarrow>
                 url_path_component (module_url ?a) = ''/cafe_static/assets/'' @ f
                 \<and> url_query (module_url ?a) = Some (''v='' @ str_int (cache_bust e))"
    by (simp only: module_url_custom_args) (blast dest: module_url_parts)
  from ok log url parts show ?thesis by blast
qed

theorem register_single_bundle_witness:
  "js_files built_env = [''index-Bx3kQ9.js'']
   \<and> CHR ''?'' \<notin> set ''index-Bx3kQ9.js'' \<and> CHR ''#'' \<notin> set ''index-Bx3kQ9.js''
   \<and> fst (async_register_panel spec_host cafe_const built_env fresh_world) = Returned ()
   \<and> (\<exists>a. calls (snd (async_register_panel spec_host cafe_const built_env fresh_world))
             = calls fresh_world @ [Register_static_paths [cafe_static built_env], Custom_register_panel a]
          \<and> module_url a = ''/cafe_static/assets/index-Bx3kQ9.js?v=1700''
          \<and> url_path_component (module_url a) = ''/cafe_static/assets/index-Bx3kQ9.js''
          \<and> url_query (module_url a) = Some ''v=1700'')"
proof -
  have create: "\<And>a h. panel_at (frontend_panels h) (frontend_url_path a) = None \<Longrightarrow>
                  fst (panel_custom_async_register_panel spec_host a h) = Returned ()"
    by (simp add: spec_custom_creates)
  show ?thesis
    using register_single_bundle [where c = cafe_const and w = fresh_world,
            OF js_files_built spec_static_returns create]
    by (simp add: js_files_built cache_bust_built str_int_1700)
qed

text \<open>
  C2. When no entry of the assets directory matches \<open>index-*.js\<close> (\<open>.map\<close> files apart) and
  the host's static-path call returns, \<open>async_register_panel\<close> returns without raising; the
  only call it has issued is the static-path registration, so no panel-creation request is
  made and the panel registry is as that call left it.
\<close>

theorem register_without_bundle_aborts:
  assumes none: "js_files e = []"
      and static_ok: "fst (http_async_register_static_paths H [cafe_static e] (hass_of w)) = Returned ()"
  shows "fst (async_register_panel H c e w) = Returned ()
       \<and> calls (snd (async_register_panel H c e w)) = calls w @ [Register_static_paths [cafe_static e]]
       \<and> frontend_panels (hass_of (snd (async_register_panel H c e w)))
           = frontend_panels (snd (http_async_register_static_paths H [cafe_static e] (hass_of w)))"
  using static_ok by (simp add: register_abort [OF none])

theorem register_without_bundle_aborts_witness:
  "js_files unbuilt_env = []
   \<and> fst (async_register_panel spec_host cafe_const unbuilt_env fresh_world) = Returned ()
   \<and> calls (snd (async_register_panel spec_host cafe_const unbuilt_env fresh_world))
       = [Register_static_paths [cafe_static unbuilt_env]]
   \<and> frontend_panels (hass_of (snd (async_register_panel spec_host cafe_const unbuilt_env fresh_world)))
       = Missing"
  using register_without_bundle_aborts [where c = cafe_const and w = fresh_world,
          OF js_files_unbuilt spec_static_returns]
  by (simp add: js_files_unbuilt spec_static_keeps_panels) (simp add: fresh_world_def)

text \<open>
  C5. When a main script is found and the static-path call has returned, the removal of an
  existing panel never stops the registration: whatever the registry slot holds, also when
  the removal itself raises (the slot holds no dict) or finds no record for the domain (the
  registry is then left as it is), the next thing \<open>async_register_panel\<close> does is the
  panel-creation call, and the outcome of the whole is the outcome of that call.
\<close>

theorem removal_is_advisory:
  assumes some: "js_files e = f # fs"
      and static_ok: "fst (http_async_register_static_paths H [cafe_static e] (hass_of w)) = Returned ()"
  shows "let h1 = snd (http_async_register_static_paths H [cafe_static e] (hass_of w));
             a = custom_panel_args c (module_url_of f (cache_bust e))
         in (frontend_panels h1 = NotADict \<longrightarrow> fst (pop_panel (DOMAIN c) h1) = Raised AttributeError)
          \<and> (panel_at (frontend_panels h1) (DOMAIN c) = None \<longrightarrow>
               frontend_panels (snd (pop_panel (DOMAIN c) h1)) = frontend_panels h1)
          \<and> calls (snd (async_register_panel H c e w))
              = calls w @ [Register_static_paths [cafe_static e], Custom_register_panel a]
          \<and> async_register_panel H c e w
              = invoke (Custom_register_panel a) (panel_custom_async_register_panel H a)
                  \<lparr>hass_of = snd (pop_panel (DOMAIN c) h1),
                   calls = calls w @ [Register_static_paths [cafe_static e]]\<rparr>"
proof -
  let ?h1 = "snd (http_async_register_static_paths H [cafe_static e] (hass_of w))"
  have raises: "frontend_panels ?h1 = NotADict \<longrightarrow> fst (pop_panel (DOMAIN c) ?h1) = Raised AttributeError"
    by simp
  have keeps: "panel_at (frontend_panels ?h1) (DOMAIN c) = None \<longrightarrow>
                 frontend_panels (snd (pop_panel (DOMAIN c) ?h1)) = frontend_panels ?h1"
    by (cases "frontend_panels ?h1") (auto simp: fun_upd_idem_iff)
  note run = register_proceed [OF some static_ok, of c]
  have log: "calls (snd (async_register_panel H c e w))
             = calls w @ [Register_static_paths [cafe_static e],
                          Custom_register_panel (custom_panel_args c (module_url_of f (cache_bust e)))]"
    by (simp add: run calls_invoke)
  from raises keeps log run show ?thesis by (simp only: Let_def)
qed

theorem removal_is_advisory_witness:
  "frontend_panels (hass_of broken_world) = NotADict
   \<and> fst (pop_panel (DOMAIN cafe_const) (hass_of broken_world)) = Raised AttributeError
   \<and> fst (async_register_panel spec_host cafe_const built_env broken_world) = Returned ()
   \<and> calls (snd (async_register_panel spec_host cafe_const built_env broken_world))
       = [Register_static_paths [cafe_static built_env],
          Custom_register_panel (custom_panel_args cafe_const (module_url_of ''index-Bx3kQ9.js'' 1700))]"
proof -
  note adv = removal_is_advisory [where c = cafe_const and w = broken_world,
               OF js_files_built spec_static_returns, unfolded Let_def]
  have tok: "cache_bust built_env = 1700"
    by (simp add: built_env_def cache_bust_def int_of_float_def)
  have slot: "frontend_panels (hass_of broken_world) = NotADict"
    by (simp add: broken_world_def)
  have raised: "fst (pop_panel (DOMAIN cafe_const) (hass_of broken_world)) = Raised AttributeError"
    by (simp add: broken_world_def)
  have ret: "fst (async_register_panel spec_host cafe_const built_env broken_world) = Returned ()"
    by (simp only: adv [THEN conjunct2, THEN conjunct2, THEN conjunct2] fst_invoke
          world.simps spec_create_after_pop)
  have log: "calls (snd (async_register_panel spec_host cafe_const built_env broken_world))
             = [Register_static_paths [cafe_static built_env],
                Custom_register_panel (custom_panel_args cafe_const (module_url_of ''index-Bx3kQ9.js'' 1700))]"
    using adv [THEN conjunct2, THEN conjunct2, THEN conjunct1]
    by (simp add: tok) (simp add: broken_world_def)
  from slot raised ret log show ?thesis by simp
qed

text \<open>
  C9. The first call \<open>async_register_panel\<close> issues is the static-path registration, whatever
  the assets directory holds. When discovery then finds no main script, the function
  returns with the host state that registration produced: the static path stays
  registered although no panel is created.
\<close>

theorem static_path_registered_before_discovery:
  "take (Suc (length (calls w))) (calls (snd (async_register_panel H c e w)))
     = calls w @ [Register_static_paths [cafe_static e]]
   \<and> (js_files e = [] \<longrightarrow>
        fst (http_async_register_static_paths H [cafe_static e] (hass_of w)) = Returned () \<longrightarrow>
        async_register_panel H c e w
          = (Returned (),
             \<lparr>hass_of = snd (http_async_register_static_paths H [cafe_static e] (hass_of w)),
              calls = calls w @ [Register_static_paths [cafe_static e]]\<rparr>))"
proof -
  let ?r = "fst (http_async_register_static_paths H [cafe_static e] (hass_of w))"
  have first: "take (Suc (length (calls w))) (calls (snd (async_register_panel H c e w)))
               = calls w @ [Register_static_paths [cafe_static e]]"
  proof (cases ?r)
    case (Raised x)
    then show ?thesis by (simp add: register_raise)
  next
    case (Returned u)
    then have ok: "?r = Returned ()" by simp
    show ?thesis
    proof (cases "js_files e")
      case Nil
      then show ?thesis by (simp add: register_abort)
    next
      case (Cons f fs)
      show ?thesis by (simp add: register_proceed [OF Cons ok] calls_invoke)
    qed
  qed
  have abort: "js_files e = [] \<longrightarrow> ?r = Returned () \<longrightarrow>
        async_register_panel H c e w
          = (Returned (),
             \<lparr>hass_of = snd (http_async_register_static_paths H [cafe_static e] (hass_of w)),
              calls = calls w @ [Register_static_paths [cafe_static e]]\<rparr>)"
    by (simp add: register_abort)
  from first abort show ?thesis by (rule conjI)
qed

theorem static_path_registered_before_discovery_witness:
  "js_files unbuilt_env = []
   \<and> fst (http_async_register_static_paths spec_host [cafe_static unbuilt_env] (hass_of fresh_world))
       = Returned ()
   \<and> static_paths (hass_of fresh_world) = []
   \<and> static_paths (hass_of (snd (async_register_panel spec_host cafe_const unbuilt_env fresh_world)))
       = [cafe_static unbuilt_env]
   \<and> frontend_panels (hass_of (snd (async_register_panel spec_host cafe_const unbuilt_env fresh_world)))
       = Missing"
  using static_path_registered_before_discovery
          [where H = spec_host and c = cafe_const and e = unbuilt_env and w = fresh_world]
  by (simp add: js_files_unbuilt spec_static_returns)
     (simp add: spec_host_def spec_register_static_paths_def fresh_world_def)

text \<open>
  C3. Take a host whose static-path call returns and leaves the panel registry alone, and
  whose panel creation, for a url path that has no record, returns and leaves a record
  there (it may refuse a path that has one). Then for every domain two registrations in
  succession both return and the registry holds a record for the domain afterwards; the
  registry is a dict keyed by url path, so it is the only one. The second creation meets
  no record because the record of the first has been removed just before.
\<close>

theorem register_twice_single_entry:
  assumes js1: "js_files e1 \<noteq> []" and js2: "js_files e2 \<noteq> []"
      and static: "\<And>cfgs h. fst (http_async_register_static_paths H cfgs h) = Returned ()
                     \<and> frontend_panels (snd (http_async_register_static_paths H cfgs h))
                         = frontend_panels h"
      and create: "\<And>a h. panel_at (frontend_panels h) (frontend_url_path a) = None \<Longrightarrow>
                     fst (panel_custom_async_register_panel H a h) = Returned ()
                     \<and> panel_at (frontend_panels (snd (panel_custom_async_register_panel H a h)))
                          (frontend_url_path a) \<noteq> None"
  shows "fst (async_register_panel H c e1 w) = Returned ()
       \<and> fst (async_register_panel H c e2 (snd (async_register_panel H c e1 w))) = Returned ()
       \<and> (\<exists>p. panel_at (frontend_panels (hass_of
                  (snd (async_register_panel H c e2 (snd (async_register_panel H c e1 w))))))
                (DOMAIN c) = Some p)"
proof -
  have once: "fst (async_register_panel H c e v) = Returned ()
              \<and> panel_at (frontend_panels (hass_of (snd (async_register_panel H c e v)))) (DOMAIN c) \<noteq> None"
    if js: "js_files e \<noteq> []" for e v
  proof -
    from js obtain f fs where cons: "js_files e = f # fs" by (cases "js_files e") auto
    let ?a = "custom_panel_args c (module_url_of f (cache_bust e))"
    let ?h2 = "snd (pop_panel (DOMAIN c) (snd (http_async_register_static_paths H [cafe_static e] (hass_of v))))"
    have absent: "panel_at (frontend_panels ?h2) (frontend_url_path ?a) = None"
      by (simp only: custom_args_url_path panel_at_after_pop)
    note made = create [OF absent]
    note run = register_proceed [OF cons static [THEN conjunct1], of c v]
    have "fst (async_register_panel H c e v) = Returned ()"
      by (simp only: run fst_invoke world.simps made)
    moreover have "panel_at (frontend_panels (hass_of (snd (async_register_panel H c e v)))) (DOMAIN c) \<noteq> None"
      using made by (simp only: run hass_invoke world.simps custom_args_url_path) simp
    ultimately show ?thesis by (rule conjI)
  qed
  from once [OF js1, of w] once [OF js2, of "snd (async_register_panel H c e1 w)"]
  show ?thesis by auto
qed

theorem register_twice_single_entry_witness:
  "js_files built_env \<noteq> []
   \<and> fst (async_register_panel spec_host cafe_const built_env fresh_world) = Returned ()
   \<and> fst (async_register_panel spec_host cafe_const (built_env\<lparr>clock := 5403 / 2\<rparr>)
            (snd (async_register_panel spec_host cafe_const built_env fresh_world))) = Returned ()
   \<and> (\<exists>p. panel_at (frontend_panels (hass_of
              (snd (async_register_panel spec_host cafe_const (built_env\<lparr>clock := 5403 / 2\<rparr>)
                     (snd (async_register_panel spec_host cafe_const built_env fresh_world))))))
            ''cafe'' = Some p)"
proof -
  have js1: "js_files built_env \<noteq> []" by (simp add: js_files_built)
  have js2: "js_files (built_env\<lparr>clock := 5403 / 2\<rparr>) \<noteq> []"
    using js1 by (simp add: js_files_def)
  show ?thesis
    using register_twice_single_entry [where H = spec_host and c = cafe_const and w = fresh_world,
            OF js1 js2 spec_static_contract spec_create_contract]
    by (simp add: js1 cafe_const_def)
qed

section \<open>Arguments of the panel-creation requests\<close>

text \<open>
  C4, as stated, fails for the iframe registrar: the request \<open>async_setup\<close> issues has
  \<open>frontend_url_path = "flow-automator"\<close>, with a hyphen, while its domain identifier is
  \<open>"flow_automator"\<close>, with an underscore.
\<close>

theorem iframe_url_path_is_not_domain:
  "Register_built_in_panel iframe_panel_args
     \<in> set (calls (snd (async_setup spec_host built_env fresh_world)))
   \<and> frontend_url_path iframe_panel_args = ''flow-automator''
   \<and> fa_DOMAIN = ''flow_automator''
   \<and> frontend_url_path iframe_panel_args \<noteq> fa_DOMAIN"
  by (simp add: async_setup_def invoke_eq spec_host_def spec_register_static_paths_def
        spec_register_panel_def fresh_world_def iframe_panel_args_def fa_DOMAIN_def)

text \<open>
  C4, amended. The creation request of \<open>async_register_panel\<close> has \<open>frontend_url_path\<close> equal
  to the domain identifier and \<open>require_admin = True\<close>; the creation request of
  \<open>async_setup\<close> has \<open>frontend_url_path = "flow-automator"\<close> and \<open>require_admin = True\<close>.
\<close>

theorem panel_request_arguments:
  assumes some: "js_files e \<noteq> []"
      and static_ok: "fst (http_async_register_static_paths H [cafe_static e] (hass_of w)) = Returned ()"
      and static_ok': "fst (http_register_static_path H (flow_automator_static e) (hass_of w)) = Returned ()"
  shows "(\<exists>a. last (calls (snd (async_register_panel H c e w))) = Custom_register_panel a
              \<and> frontend_url_path a = DOMAIN c \<and> require_admin a)
       \<and> (\<exists>b. last (calls (snd (async_setup H e w))) = Register_built_in_panel b
              \<and> frontend_url_path b = ''flow-automator'' \<and> require_admin b)"
proof -
  from some obtain f fs where js: "js_files e = f # fs" by (cases "js_files e") auto
  let ?a = "custom_panel_args c (module_url_of f (cache_bust e))"
  have "last (calls (snd (async_register_panel H c e w))) = Custom_register_panel ?a"
    by (simp add: register_proceed [OF js static_ok] calls_invoke)
  moreover have "frontend_url_path ?a = DOMAIN c \<and> require_admin ?a"
    by (simp add: custom_panel_args_def)
  ultimately have custom: "\<exists>a. last (calls (snd (async_register_panel H c e w))) = Custom_register_panel a
              \<and> frontend_url_path a = DOMAIN c \<and> require_admin a"
    by blast
  have "last (calls (snd (async_setup H e w))) = Register_built_in_panel iframe_panel_args"
    using static_ok'
    by (cases "fst (frontend_async_register_built_in_panel H iframe_panel_args
                      (snd (http_register_static_path H (flow_automator_static e) (hass_of w))))")
       (simp_all add: async_setup_def invoke_eq)
  moreover have "frontend_url_path iframe_panel_args = ''flow-automator'' \<and> require_admin iframe_panel_args"
    by (simp add: iframe_panel_args_def)
  ultimately have iframe: "\<exists>b. last (calls (snd (async_setup H e w))) = Register_built_in_panel b
              \<and> frontend_url_path b = ''flow-automator'' \<and> require_admin b"
    by blast
  from custom iframe show ?thesis by (rule conjI)
qed

theorem panel_request_arguments_witness:
  "js_files built_env \<noteq> []
   \<and> (\<exists>a. last (calls (snd (async_register_panel spec_host cafe_const built_env fresh_world)))
             = Custom_register_panel a
          \<and> frontend_url_path a = ''cafe'' \<and> require_admin a)
   \<and> (\<exists>b. last (calls (snd (async_setup spec_host built_env fresh_world)))
             = Register_built_in_panel b
          \<and> frontend_url_path b = ''flow-automator'' \<and> require_admin b)"
proof -
  have some: "js_files built_env \<noteq> []" by (simp add: js_files_built)
  show ?thesis
    using panel_request_arguments [where c = cafe_const and w = fresh_world,
            OF some spec_static_returns spec_static1_returns]
    by (simp add: some cafe_const_def)
qed

section \<open>The iframe panel\<close>

text \<open>
  C6. When the static-path call returns, \<open>async_setup\<close> issues one panel-creation request,
  for the component \<open>iframe\<close>, whose config is the url \<open>/flow_automator_static/index.html\<close>
  with no query; what the assets directory holds and what the clock reads make no
  difference to anything \<open>async_setup\<close> does.
\<close>

theorem iframe_url_fixed:
  assumes static_ok: "fst (http_register_static_path H (flow_automator_static e) (hass_of w)) = Returned ()"
  shows "calls (snd (async_setup H e w))
           = calls w @ [Register_static_path (flow_automator_static e),
                        Register_built_in_panel iframe_panel_args]
       \<and> component_name iframe_panel_args = ''iframe''
       \<and> config iframe_panel_args = [(''url'', ''/flow_automator_static/index.html'')]
       \<and> async_setup H (e\<lparr>assets_entries := xs, clock := t\<rparr>) w = async_setup H e w"
proof -
  have same: "flow_automator_static (e\<lparr>assets_entries := xs, clock := t\<rparr>) = flow_automator_static e"
    by (simp add: flow_automator_static_def www_path_def)
  have indep: "async_setup H (e\<lparr>assets_entries := xs, clock := t\<rparr>) w = async_setup H e w"
    by (simp only: async_setup_def same)
  have log: "calls (snd (async_setup H e w))
           = calls w @ [Register_static_path (flow_automator_static e),
                        Register_built_in_panel iframe_panel_args]"
    using static_ok
    by (cases "fst (frontend_async_register_built_in_panel H iframe_panel_args
                      (snd (http_register_static_path H (flow_automator_static e) (hass_of w))))")
       (simp_all add: async_setup_def invoke_eq)
  from log indep show ?thesis by (simp add: iframe_panel_args_def)
qed

theorem iframe_url_fixed_witness:
  "fst (http_register_static_path spec_host (flow_automator_static built_env) (hass_of fresh_world))
     = Returned ()
   \<and> calls (snd (async_setup spec_host built_env fresh_world))
       = [Register_static_path (flow_automator_static built_env),
          Register_built_in_panel iframe_panel_args]
   \<and> map_of (config iframe_panel_args) ''url'' = Some ''/flow_automator_static/index.html''
   \<and> async_setup spec_host (built_env\<lparr>assets_entries := [], clock := 0\<rparr>) fresh_world
       = async_setup spec_host built_env fresh_world"
  using iframe_url_fixed [where H = spec_host and e = built_env and w = fresh_world
          and xs = "[]" and t = 0, OF spec_static1_returns]
  by (simp add: spec_static1_returns) (simp add: fresh_world_def)

section \<open>Unregistering\<close>

text \<open>
  C7. \<open>async_unregister_panel\<close> hands the domain to the host's removal and raises exactly
  when that raises. With the host's removal as the spec describes it, it returns for every
  state of the registry, also when there is no record for the domain; afterwards there is
  none, and a second call returns as well and changes nothing.
\<close>

theorem unregister_never_raises:
  "fst (async_unregister_panel H c w) = fst (frontend_async_remove_panel H (DOMAIN c) (hass_of w))
   \<and> fst (async_unregister_panel spec_host c v) = Returned ()
   \<and> panel_at (frontend_panels (hass_of (snd (async_unregister_panel spec_host c v)))) (DOMAIN c) = None
   \<and> fst (async_unregister_panel spec_host c (snd (async_unregister_panel spec_host c v))) = Returned ()
   \<and> hass_of (snd (async_unregister_panel spec_host c (snd (async_unregister_panel spec_host c v))))
       = hass_of (snd (async_unregister_panel spec_host c v))"
  by (cases "frontend_panels (hass_of v)")
     (simp_all add: async_unregister_panel_def invoke_eq spec_host_def spec_remove_panel_def)

section \<open>Config-entry hooks\<close>

text \<open>
  C10. Setting up and unloading a config entry both return \<open>True\<close> whatever the state and
  the entry are, and leave the world as it was: the host state (panel registry and static
  paths) is the same and no call to the host has been added to the record of calls.
\<close>

theorem unload_entry_no_cleanup:
  "async_unload_entry w entry = (Returned True, w)
   \<and> async_setup_entry w entry = (Returned True, w)
   \<and> calls (snd (async_unload_entry w entry)) = calls w
   \<and> frontend_panels (hass_of (snd (async_unload_entry w entry))) = frontend_panels (hass_of w)
   \<and> static_paths (hass_of (snd (async_unload_entry w entry))) = static_paths (hass_of w)"
  by (simp add: async_unload_entry_def async_setup_entry_def)

end
